theory Spec2Isabelle
  imports Main
begin

section \<open>Exceptions, events and the SDK state\<close>

text \<open>
  A Python exception object, as far as the integrations read it: the names of the
  classes of its type (the method resolution order, most derived class first) and its
  message. \<open>isinstance(e, C)\<close> holds when \<open>C\<close> is one of these classes.
\<close>

record exn =
  exc_mro :: "string list"
  exc_value :: string

definition isinstance :: "exn \<Rightarrow> string \<Rightarrow> bool" where
  "isinstance e c = (c \<in> set (exc_mro e))"

text \<open>\<^verbatim>\<open>from trytond.exceptions import TrytonException\<close>: the class the handler tests for.\<close>

definition TrytonException :: string where
  "TrytonException = ''TrytonException''"

text \<open>The mechanism dictionary \<^verbatim>\<open>{"type": ..., "handled": ...}\<close> of an event.\<close>

record mechanism =
  mech_type :: string
  handled :: bool

text \<open>
  One entry of \<^verbatim>\<open>event["exception"]["values"]\<close>: the test of the gRPC integration
  reads its \<^verbatim>\<open>type\<close>, \<^verbatim>\<open>value\<close> and \<^verbatim>\<open>mechanism\<close> keys.
\<close>

record exception_value =
  ev_type :: string
  ev_value :: string
  ev_mechanism :: mechanism

record event =
  exception_values :: "exception_value list"

text \<open>The hint \<^verbatim>\<open>{"exc_info": ...}\<close> that accompanies an event: the exception itself.\<close>

type_synonym hint = exn

type_synonym client_options = "(string \<times> string) list"

text \<open>
  The client: its options and the identifiers of the integrations enabled on it.
  The SDK state holds the current client and what the reporting collaborator has
  received so far, oldest first.
\<close>

record client =
  options :: client_options
  integrations :: "string list"

record sdk =
  current_client :: client
  captured :: "(event \<times> hint) list"

definition get_client :: "sdk \<Rightarrow> client" where
  "get_client s = current_client s"

definition get_integration :: "client \<Rightarrow> string \<Rightarrow> string option" where
  "get_integration c name = (if name \<in> set (integrations c) then Some name else None)"

text \<open>
  Modelled from the spec: \<^verbatim>\<open>event_from_exception\<close> of \<^verbatim>\<open>sentry_sdk.utils\<close> is
  imported by the integration and is not among the source files. The spec (4.4) says
  the error is captured as a structured event with its message and type and with the
  mechanism tag handed in; the hint carries the exception. The type is the name of the
  exception's own class (the empty name for an exception with no class recorded).
\<close>

definition event_from_exception :: "exn \<Rightarrow> client_options \<Rightarrow> mechanism \<Rightarrow> event \<times> hint" where
  "event_from_exception e client_options mech =
     (\<lparr>exception_values =
         [\<lparr>ev_type = (case exc_mro e of [] \<Rightarrow> [] | c # _ \<Rightarrow> c),
           ev_value = exc_value e,
           ev_mechanism = mech\<rparr>]\<rparr>, e)"

text \<open>
  Modelled from the spec: \<^verbatim>\<open>sentry_sdk.capture_event\<close> is not among the source files.
  The spec (6) has the reporting collector accept an event through
  \<^verbatim>\<open>capture_event(event)\<close>, fire and forget: the event is appended to what was received.
\<close>

definition capture_event :: "event \<Rightarrow> hint \<Rightarrow> sdk \<Rightarrow> sdk" where
  "capture_event ev h s = s\<lparr>captured := captured s @ [(ev, h)]\<rparr>"

text \<open>
  Modelled from the spec: the decorator \<^verbatim>\<open>ensure_integration_enabled\<close> of
  \<^verbatim>\<open>sentry_sdk.utils\<close> is imported by the integration and is not among the source
  files. Used with the integration alone, it runs the decorated function when the
  integration is enabled on the current client, and otherwise does nothing (the call
  returns \<^verbatim>\<open>None\<close>).
\<close>

definition ensure_integration_enabled ::
  "string \<Rightarrow> ('a \<Rightarrow> sdk \<Rightarrow> sdk) \<Rightarrow> 'a \<Rightarrow> sdk \<Rightarrow> sdk" where
  "ensure_integration_enabled integration f x s =
     (if get_integration (get_client s) integration = None then s else f x s)"

section \<open>The Tryton integration (\<^verbatim>\<open>sentry_sdk/integrations/trytond.py\<close>)\<close>

definition TrytondWSGIIntegration_identifier :: string where
  "TrytondWSGIIntegration_identifier = ''trytond_wsgi''"

definition TrytondWSGIIntegration_origin :: string where
  "TrytondWSGIIntegration_origin = ''auto.http.'' @ TrytondWSGIIntegration_identifier"

text \<open>
  The body of \<^verbatim>\<open>error_handler\<close>, before the decorator is applied: a
  \<^verbatim>\<open>TrytonException\<close> returns at once; any other exception is turned into an event
  with the mechanism \<^verbatim>\<open>{"type": "trytond", "handled": False}\<close> and captured. The
  function returns \<^verbatim>\<open>None\<close> on both paths and raises nothing itself.
\<close>

definition error_handler_body :: "exn \<Rightarrow> sdk \<Rightarrow> sdk" where
  "error_handler_body e s =
     (if isinstance e TrytonException then s
      else
        (let client = get_client s;
             (ev, h) = event_from_exception e (options client)
                         \<lparr>mech_type = ''trytond'', handled = False\<rparr>
         in capture_event ev h s))"

definition error_handler :: "exn \<Rightarrow> sdk \<Rightarrow> sdk" where
  "error_handler = ensure_integration_enabled TrytondWSGIIntegration_identifier error_handler_body"

text \<open>
  The application object of the host framework, as far as \<^verbatim>\<open>setup_once\<close> touches its
  error handlers. From Tryton 5.4 on the application has an \<^verbatim>\<open>error_handler\<close>
  decorator and calls a handler with \<^verbatim>\<open>(app, request, e)\<close>; before, a handler is
  appended to \<^verbatim>\<open>error_handlers\<close> and called with the exception alone.
\<close>

datatype 'req registered =
  WithRequest "'req \<Rightarrow> exn \<Rightarrow> sdk \<Rightarrow> sdk"
| ExceptionOnly "exn \<Rightarrow> sdk \<Rightarrow> sdk"

record 'req app =
  has_error_handler :: bool
  error_handlers :: "'req registered list"

definition setup_once :: "'req app \<Rightarrow> 'req app" where
  "setup_once a =
     (if has_error_handler a
      then a\<lparr>error_handlers := error_handlers a @ [WithRequest (\<lambda>request e. error_handler e)]\<rparr>
      else a\<lparr>error_handlers := error_handlers a @ [ExceptionOnly error_handler]\<rparr>)"

text \<open>
  Modelled from the spec: the request entry point of the host framework
  (\<^verbatim>\<open>trytond.wsgi.app\<close>) is imported and is not among the source files. By the spec
  (4.4, 7) the business handler runs; when it raises, each registered error handler is
  called with the exception, in registration order, and the handler's own return value
  or exception is handed to the caller as it is.
\<close>

fun call_handler :: "'req registered \<Rightarrow> 'req \<Rightarrow> exn \<Rightarrow> sdk \<Rightarrow> sdk" where
  "call_handler (WithRequest f) request e s = f request e s"
| "call_handler (ExceptionOnly f) request e s = f e s"

fun run_error_handlers :: "'req registered list \<Rightarrow> 'req \<Rightarrow> exn \<Rightarrow> sdk \<Rightarrow> sdk" where
  "run_error_handlers [] request e s = s"
| "run_error_handlers (h # hs) request e s =
     run_error_handlers hs request e (call_handler h request e s)"

definition dispatch ::
  "'req app \<Rightarrow> ('req \<Rightarrow> exn + 'resp) \<Rightarrow> 'req \<Rightarrow> sdk \<Rightarrow> (exn + 'resp) \<times> sdk" where
  "dispatch a handler request s =
     (case handler request of
        Inl e \<Rightarrow> (Inl e, run_error_handlers (error_handlers a) request e s)
      | Inr r \<Rightarrow> (Inr r, s))"

section \<open>The trace context codec\<close>

text \<open>
  Modelled from the spec: the codec that writes and reads the trace headers lives in the
  SDK's tracing modules, which are not among the source files; only the gRPC test is,
  which writes the two headers by hand (\<^verbatim>\<open>test_grpc_server_continues_transaction\<close>).
  The definitions below follow the spec (3, 4.1, 6) and take the header names and the
  layout of the values from that test. Identifiers are the hexadecimal strings the SDK
  formats into the header: 32 characters for a 128-bit trace id, 16 for a 64-bit span id.
\<close>

datatype sampling = Sampled | NotSampled | Deferred

record TraceContext =
  trace_id :: string
  parent_span_id :: "string option"
  sampled :: sampling

datatype codec_error = DecodeError

text \<open>
  The auxiliary values of the baggage header. They are not fields of a
  \<^verbatim>\<open>TraceContext\<close>, so the encoder takes them beside it.
\<close>

record baggage_items =
  environment :: string
  transaction :: string
  sample_rate :: string

definition is_hex_char :: "char \<Rightarrow> bool" where
  "is_hex_char c = (c \<in> set ''0123456789abcdefABCDEF'')"

definition is_hex :: "nat \<Rightarrow> string \<Rightarrow> bool" where
  "is_hex n s = (length s = n \<and> list_all is_hex_char s)"

text \<open>Python's \<^verbatim>\<open>str.split(sep)\<close> for a one-character separator.\<close>

fun split_on :: "char \<Rightarrow> string \<Rightarrow> string list" where
  "split_on sep [] = [[]]"
| "split_on sep (c # cs) =
     (if c = sep then [] # split_on sep cs
      else (case split_on sep cs of
              [] \<Rightarrow> [[c]]
            | f # fs \<Rightarrow> (c # f) # fs))"

text \<open>
  The primary header value \<^verbatim>\<open>"{trace_id}-{parent_span_id}-{sampled}"\<close>. A deferred
  sampling decision is sent as an absent flag; a context without a span id has nothing
  to put in the second field.
\<close>

definition sampled_flag :: "sampling \<Rightarrow> string" where
  "sampled_flag sm = (case sm of Sampled \<Rightarrow> ''-1'' | NotSampled \<Rightarrow> ''-0'' | Deferred \<Rightarrow> [])"

definition sentry_trace_value :: "TraceContext \<Rightarrow> string" where
  "sentry_trace_value ctx =
     trace_id ctx @ ''-'' @ (case parent_span_id ctx of None \<Rightarrow> [] | Some p \<Rightarrow> p)
       @ sampled_flag (sampled ctx)"

definition baggage_value :: "baggage_items \<Rightarrow> TraceContext \<Rightarrow> string" where
  "baggage_value aux ctx =
     ''sentry-trace_id='' @ trace_id ctx @ '',sentry-environment='' @ environment aux
       @ '',sentry-transaction='' @ transaction aux @ '',sentry-sample_rate='' @ sample_rate aux"

definition encode :: "baggage_items \<Rightarrow> TraceContext \<Rightarrow> (string \<times> string) list" where
  "encode aux ctx =
     [(''sentry-trace'', sentry_trace_value ctx), (''baggage'', baggage_value aux ctx)]"

text \<open>
  Decoding reads the primary header only. The flag is \<^verbatim>\<open>"1"\<close>, \<^verbatim>\<open>"0"\<close> or absent;
  the trace id must be exactly 32 hexadecimal characters and the span id exactly 16.
  An absent header is not an error.
\<close>

definition parse_sampled :: "string \<Rightarrow> sampling option" where
  "parse_sampled f =
     (if f = ''1'' then Some Sampled else if f = ''0'' then Some NotSampled else None)"

definition decode_value :: "string \<Rightarrow> codec_error + TraceContext" where
  "decode_value v =
     (case split_on CHR ''-'' v of
        [t, p] \<Rightarrow>
          (if is_hex 32 t \<and> is_hex 16 p
           then Inr \<lparr>trace_id = t, parent_span_id = Some p, sampled = Deferred\<rparr>
           else Inl DecodeError)
      | [t, p, f] \<Rightarrow>
          (case parse_sampled f of
             None \<Rightarrow> Inl DecodeError
           | Some sm \<Rightarrow>
               (if is_hex 32 t \<and> is_hex 16 p
                then Inr \<lparr>trace_id = t, parent_span_id = Some p, sampled = sm\<rparr>
                else Inl DecodeError))
      | _ \<Rightarrow> Inl DecodeError)"

definition decode :: "(string \<times> string) list \<Rightarrow> codec_error + TraceContext option" where
  "decode headers =
     (case map_of headers ''sentry-trace'' of
        None \<Rightarrow> Inr None
      | Some v \<Rightarrow> (case decode_value v of Inl err \<Rightarrow> Inl err | Inr ctx \<Rightarrow> Inr (Some ctx)))"

text \<open>
  A context that can be put on the wire (6): a 32-character hexadecimal trace id and a
  16-character hexadecimal span id. The header always carries a span id, so a context
  whose \<^verbatim>\<open>parent_span_id\<close> is null is not one of them.
\<close>

definition valid_TraceContext :: "TraceContext \<Rightarrow> bool" where
  "valid_TraceContext ctx =
     (is_hex 32 (trace_id ctx) \<and>
      (case parent_span_id ctx of None \<Rightarrow> False | Some p \<Rightarrow> is_hex 16 p))"

section \<open>The error handler\<close>

lemma error_handler_tryton:
  "isinstance e TrytonException \<Longrightarrow> error_handler e s = s"
  by (simp add: error_handler_def ensure_integration_enabled_def error_handler_body_def)

lemma error_handler_disabled:
  "get_integration (get_client s) TrytondWSGIIntegration_identifier = None \<Longrightarrow> error_handler e s = s"
  by (simp add: error_handler_def ensure_integration_enabled_def)

lemma error_handler_reports:
  "\<not> isinstance e TrytonException \<Longrightarrow> get_integration (get_client s) TrytondWSGIIntegration_identifier \<noteq> None \<Longrightarrow>
   error_handler e s =
     s\<lparr>captured := captured s @
        [event_from_exception e (options (get_client s)) \<lparr>mech_type = ''trytond'', handled = False\<rparr>]\<rparr>"
  by (simp add: error_handler_def ensure_integration_enabled_def error_handler_body_def
      capture_event_def Let_def split: prod.splits)

lemma run_error_handlers_setup_once:
  "error_handlers a = [] \<Longrightarrow>
   run_error_handlers (error_handlers (setup_once a)) request e s = error_handler e s"
  by (simp add: setup_once_def)

lemma dispatch_raise_setup_once:
  "error_handlers a = [] \<Longrightarrow> handler request = Inl e \<Longrightarrow>
   dispatch (setup_once a) handler request s = (Inl e, error_handler e s)"
  by (simp add: dispatch_def run_error_handlers_setup_once)

text \<open>
  C5. A denylisted exception (an instance of \<^verbatim>\<open>TrytonException\<close>) raised by the wrapped
  handler produces no reporting event: the SDK state after the request, and with it the
  list of captured events, is the state before. The exception reaches the caller as the
  handler raised it. This holds whether or not the integration is enabled.
\<close>

theorem denylisted_exception_not_reported:
  assumes "isinstance e TrytonException"
    and "error_handlers a = []"
    and "handler request = Inl e"
  shows "fst (dispatch (setup_once a) handler request s) = Inl e \<and>
         snd (dispatch (setup_once a) handler request s) = s \<and>
         captured (snd (dispatch (setup_once a) handler request s)) = captured s"
  using assms by (simp add: dispatch_raise_setup_once error_handler_tryton)

theorem denylisted_exception_not_reported_witness:
  "isinstance \<lparr>exc_mro = [''UserError'', ''TrytonException'', ''Exception''], exc_value = ''no''\<rparr>
     TrytonException \<and>
   error_handlers \<lparr>has_error_handler = True, error_handlers = ([] :: unit registered list)\<rparr> = [] \<and>
   fst (dispatch (setup_once \<lparr>has_error_handler = True, error_handlers = []\<rparr>)
     (\<lambda>r. (Inl \<lparr>exc_mro = [''UserError'', ''TrytonException'', ''Exception''], exc_value = ''no''\<rparr>
            :: exn + string)) ()
     \<lparr>current_client = \<lparr>options = [], integrations = [''trytond_wsgi'']\<rparr>, captured = []\<rparr>)
     = Inl \<lparr>exc_mro = [''UserError'', ''TrytonException'', ''Exception''], exc_value = ''no''\<rparr> \<and>
   captured (snd (dispatch (setup_once \<lparr>has_error_handler = True, error_handlers = []\<rparr>)
     (\<lambda>r. (Inl \<lparr>exc_mro = [''UserError'', ''TrytonException'', ''Exception''], exc_value = ''no''\<rparr>
            :: exn + string)) ()
     \<lparr>current_client = \<lparr>options = [], integrations = [''trytond_wsgi'']\<rparr>, captured = []\<rparr>))
     = []"
  using denylisted_exception_not_reported
    [of "\<lparr>exc_mro = [''UserError'', ''TrytonException'', ''Exception''], exc_value = ''no''\<rparr>"
        "\<lparr>has_error_handler = True, error_handlers = ([] :: unit registered list)\<rparr>"
        "\<lambda>r. (Inl \<lparr>exc_mro = [''UserError'', ''TrytonException'', ''Exception''], exc_value = ''no''\<rparr>
            :: exn + string)"
        "()"
        "\<lparr>current_client = \<lparr>options = [], integrations = [''trytond_wsgi'']\<rparr>, captured = []\<rparr>"]
  by (simp add: isinstance_def TrytonException_def)

text \<open>
  C6, as stated, fails: the handler is gated by \<^verbatim>\<open>ensure_integration_enabled\<close>. With no
  integration enabled on the current client, a \<^verbatim>\<open>ValueError\<close> raised by the handler
  produces no event.
\<close>

theorem reported_exception_counterexample:
  "\<not> isinstance \<lparr>exc_mro = [''ValueError'', ''Exception''], exc_value = ''boom''\<rparr> TrytonException \<and>
   captured (snd (dispatch (setup_once \<lparr>has_error_handler = True, error_handlers = []\<rparr>)
     (\<lambda>r. (Inl \<lparr>exc_mro = [''ValueError'', ''Exception''], exc_value = ''boom''\<rparr> :: exn + string)) ()
     \<lparr>current_client = \<lparr>options = [], integrations = []\<rparr>, captured = []\<rparr>))
     = []"
  by (simp add: dispatch_raise_setup_once error_handler_disabled get_integration_def
      get_client_def isinstance_def TrytonException_def)

text \<open>
  C6, amended. When the integration is enabled on the current client, an exception that
  is not an instance of \<^verbatim>\<open>TrytonException\<close> raised by the wrapped handler produces exactly
  one event: the captured list grows by one entry, whose exception value carries the
  mechanism \<^verbatim>\<open>{"type": "trytond", "handled": False}\<close>; the rest of the state is as it
  was, and the exception reaches the caller as the handler raised it.
\<close>

theorem reported_exception_when_enabled:
  assumes "\<not> isinstance e TrytonException"
    and "get_integration (get_client s) TrytondWSGIIntegration_identifier \<noteq> None"
    and "error_handlers a = []"
    and "handler request = Inl e"
  shows "dispatch (setup_once a) handler request s =
           (Inl e,
            s\<lparr>captured := captured s @
               [event_from_exception e (options (get_client s))
                  \<lparr>mech_type = ''trytond'', handled = False\<rparr>]\<rparr>) \<and>
         map ev_mechanism
           (exception_values
              (fst (event_from_exception e (options (get_client s))
                      \<lparr>mech_type = ''trytond'', handled = False\<rparr>))) =
           [\<lparr>mech_type = ''trytond'', handled = False\<rparr>]"
proof -
  have "dispatch (setup_once a) handler request s = (Inl e, error_handler e s)"
    using assms(3,4) by (rule dispatch_raise_setup_once)
  moreover have "error_handler e s =
      s\<lparr>captured := captured s @
         [event_from_exception e (options (get_client s))
            \<lparr>mech_type = ''trytond'', handled = False\<rparr>]\<rparr>"
    using assms(1,2) by (rule error_handler_reports)
  moreover have "map ev_mechanism
      (exception_values
         (fst (event_from_exception e (options (get_client s))
                 \<lparr>mech_type = ''trytond'', handled = False\<rparr>))) =
      [\<lparr>mech_type = ''trytond'', handled = False\<rparr>]"
    by (simp add: event_from_exception_def)
  ultimately show ?thesis by simp
qed

theorem reported_exception_when_enabled_witness:
  "\<not> isinstance \<lparr>exc_mro = [''ValueError'', ''Exception''], exc_value = ''boom''\<rparr> TrytonException \<and>
   get_integration
     (get_client \<lparr>current_client = \<lparr>options = [], integrations = [''trytond_wsgi'']\<rparr>, captured = []\<rparr>)
     TrytondWSGIIntegration_identifier \<noteq> None \<and>
   dispatch (setup_once \<lparr>has_error_handler = False, error_handlers = []\<rparr>)
     (\<lambda>r. (Inl \<lparr>exc_mro = [''ValueError'', ''Exception''], exc_value = ''boom''\<rparr> :: exn + string)) ()
     \<lparr>current_client = \<lparr>options = [], integrations = [''trytond_wsgi'']\<rparr>, captured = []\<rparr> =
     (Inl \<lparr>exc_mro = [''ValueError'', ''Exception''], exc_value = ''boom''\<rparr>,
      \<lparr>current_client = \<lparr>options = [], integrations = [''trytond_wsgi'']\<rparr>,
       captured =
         [(\<lparr>exception_values =
              [\<lparr>ev_type = ''ValueError'', ev_value = ''boom'',
                ev_mechanism = \<lparr>mech_type = ''trytond'', handled = False\<rparr>\<rparr>]\<rparr>,
           \<lparr>exc_mro = [''ValueError'', ''Exception''], exc_value = ''boom''\<rparr>)]\<rparr>)"
  using reported_exception_when_enabled
    [of "\<lparr>exc_mro = [''ValueError'', ''Exception''], exc_value = ''boom''\<rparr>"
        "\<lparr>current_client = \<lparr>options = [], integrations = [''trytond_wsgi'']\<rparr>, captured = []\<rparr>"
        "\<lparr>has_error_handler = False, error_handlers = ([] :: unit registered list)\<rparr>"
        "\<lambda>r. (Inl \<lparr>exc_mro = [''ValueError'', ''Exception''], exc_value = ''boom''\<rparr> :: exn + string)"
        "()"]
  by (simp add: isinstance_def TrytonException_def get_integration_def get_client_def
      TrytondWSGIIntegration_identifier_def event_from_exception_def)

text \<open>
  C10. When \<^verbatim>\<open>TrytondWSGIIntegration\<close> is not enabled on the current client, the error
  handler is a no-op for every exception, Tryton's or not: the state it returns is the
  state it was given, so nothing is captured. An event is captured only when the
  integration is enabled.
\<close>

theorem error_handler_noop_when_disabled:
  assumes "get_integration (get_client s) TrytondWSGIIntegration_identifier = None"
  shows "error_handler e s = s \<and> captured (error_handler e s) = captured s"
  using assms by (simp add: error_handler_disabled)

theorem error_handler_noop_when_disabled_witness:
  "get_integration
     (get_client \<lparr>current_client = \<lparr>options = [], integrations = [''flask'']\<rparr>, captured = []\<rparr>)
     TrytondWSGIIntegration_identifier = None \<and>
   captured (error_handler \<lparr>exc_mro = [''ValueError'', ''Exception''], exc_value = ''boom''\<rparr>
     \<lparr>current_client = \<lparr>options = [], integrations = [''flask'']\<rparr>, captured = []\<rparr>) = []"
  using error_handler_noop_when_disabled
    [of "\<lparr>current_client = \<lparr>options = [], integrations = [''flask'']\<rparr>, captured = []\<rparr>"
        "\<lparr>exc_mro = [''ValueError'', ''Exception''], exc_value = ''boom''\<rparr>"]
  by (simp add: get_integration_def get_client_def TrytondWSGIIntegration_identifier_def)

section \<open>The codec round trip\<close>

lemma hex_no_dash: "list_all is_hex_char s \<Longrightarrow> CHR ''-'' \<notin> set s"
  by (induction s) (auto simp: is_hex_char_def)

lemma split_on_plain: "sep \<notin> set s \<Longrightarrow> split_on sep s = [s]"
  by (induction s) auto

lemma split_on_field: "sep \<notin> set s \<Longrightarrow> split_on sep (s @ sep # r) = s # split_on sep r"
  by (induction s) auto

lemma decode_value_sentry_trace_value:
  assumes "valid_TraceContext ctx"
  shows "decode_value (sentry_trace_value ctx) = Inr ctx"
proof -
  obtain p where p: "parent_span_id ctx = Some p" and hp: "is_hex 16 p"
    using assms by (auto simp: valid_TraceContext_def split: option.splits)
  have ht: "is_hex 32 (trace_id ctx)"
    using assms by (simp add: valid_TraceContext_def)
  have nt: "CHR ''-'' \<notin> set (trace_id ctx)"
    using ht by (simp add: is_hex_def hex_no_dash)
  have np: "CHR ''-'' \<notin> set p"
    using hp by (simp add: is_hex_def hex_no_dash)
  have ctx: "ctx = \<lparr>trace_id = trace_id ctx, parent_span_id = Some p, sampled = sampled ctx\<rparr>"
    using p by simp
  show ?thesis
  proof (cases "sampled ctx")
    case Sampled
    have "split_on CHR ''-'' (sentry_trace_value ctx) = [trace_id ctx, p, ''1'']"
      using nt np p Sampled
      by (simp add: sentry_trace_value_def sampled_flag_def split_on_field)
    then show ?thesis
      using ht hp Sampled ctx by (simp add: decode_value_def parse_sampled_def)
  next
    case NotSampled
    have "split_on CHR ''-'' (sentry_trace_value ctx) = [trace_id ctx, p, ''0'']"
      using nt np p NotSampled
      by (simp add: sentry_trace_value_def sampled_flag_def split_on_field)
    then show ?thesis
      using ht hp NotSampled ctx by (simp add: decode_value_def parse_sampled_def)
  next
    case Deferred
    have "split_on CHR ''-'' (sentry_trace_value ctx) = [trace_id ctx, p]"
      using nt np p Deferred
      by (simp add: sentry_trace_value_def sampled_flag_def split_on_field split_on_plain)
    then show ?thesis
      using ht hp Deferred ctx by (simp add: decode_value_def)
  qed
qed

text \<open>
  C1. For every valid trace context, decoding the header pair that encoding produces
  gives the context back, whatever the auxiliary baggage values are.
\<close>

theorem decode_encode_roundtrip:
  "valid_TraceContext ctx \<Longrightarrow> decode (encode aux ctx) = Inr (Some ctx)"
  by (simp add: decode_def encode_def decode_value_sentry_trace_value)

theorem decode_encode_roundtrip_witness:
  "valid_TraceContext
     \<lparr>trace_id = ''0123456789abcdef0123456789abcdef'',
      parent_span_id = Some ''abcd1234abcd1234'', sampled = Sampled\<rparr> \<and>
   decode (encode
       \<lparr>environment = ''test'', transaction = ''test-transaction'', sample_rate = ''1.0''\<rparr>
       \<lparr>trace_id = ''0123456789abcdef0123456789abcdef'',
        parent_span_id = Some ''abcd1234abcd1234'', sampled = Sampled\<rparr>) =
     Inr (Some \<lparr>trace_id = ''0123456789abcdef0123456789abcdef'',
                parent_span_id = Some ''abcd1234abcd1234'', sampled = Sampled\<rparr>)"
  using decode_encode_roundtrip
    [of "\<lparr>trace_id = ''0123456789abcdef0123456789abcdef'',
          parent_span_id = Some ''abcd1234abcd1234'', sampled = Sampled\<rparr>"
        "\<lparr>environment = ''test'', transaction = ''test-transaction'', sample_rate = ''1.0''\<rparr>"]
  by (simp add: valid_TraceContext_def is_hex_def is_hex_char_def)

end
